theory Spec2Isabelle
  imports Main "HOL-Library.Word" "HOL-Library.Sublist"
begin

section \<open>The TSN package: wall clocks and transaction sequence numbers\<close>

text \<open>
  A shallow embedding of \<^verbatim>\<open>tsn.go\<close>. The package keeps three package-level
  variables (the map \<^verbatim>\<open>wallclocks\<close>, its lock, and the memoized connection
  template \<^verbatim>\<open>dbTemplate\<close>) and talks to three collaborators: the process
  environment, \<^verbatim>\<open>database/sql\<close> and the PostgreSQL server behind it. The
  package-level variables and the objects the package allocates form the record
  \<open>state\<close>; what the collaborators answer during one call forms the record
  \<open>world\<close>, a parameter of every function. A \<^verbatim>\<open>panic\<close> is a value:
  every function that can panic returns \<open>panic + 'a\<close>, together with the state as the
  panic left it.

  Tracing output (\<^verbatim>\<open>checkString\<close>, \<^verbatim>\<open>checkRow\<close> and the
  \<^verbatim>\<open>Printf\<close> of \<^verbatim>\<open>checkErr\<close>) writes to standard output only and is
  left out.
\<close>

subsection \<open>Values\<close>

text \<open>A Go \<^verbatim>\<open>error\<close> that is not nil, by its message; nil is \<open>None\<close>.\<close>

type_synonym go_error = string

text \<open>
  What \<^verbatim>\<open>recover()\<close> can receive: the error \<^verbatim>\<open>checkErr\<close> panicked with, or
  the runtime error of dereferencing a nil pointer.
\<close>

datatype panic = ErrPanic go_error | NilDereference

text \<open>
  Pointers are nil (\<open>None\<close>) or the address of an object. A \<^verbatim>\<open>*WallClock\<close> is an
  index into \<open>heap\<close>, a \<^verbatim>\<open>*sql.DB\<close> an index into \<open>pools\<close>.
\<close>

type_synonym wc_ptr = "nat option"
type_synonym db_ptr = "nat option"

record WallClock =
  wc_db :: db_ptr
  wc_name :: string
  wc_dbname :: string

text \<open>
  The outcome of the one round trip \<^verbatim>\<open>db.QueryRow(q).Scan(&tsn)\<close>: the query
  failed, it returned no row, the row could not be decoded into an \<^verbatim>\<open>int64\<close>, or
  a value was scanned.
\<close>

datatype scan_outcome =
    QueryFailed go_error
  | NoRows
  | DecodeFailed go_error
  | Scanned "64 word"

record world =
  os_Getenv :: "string \<Rightarrow> string"
  sql_Open :: "string \<Rightarrow> string \<Rightarrow> go_error option"
  db_Ping :: "nat \<Rightarrow> go_error option"
  db_QueryRow :: "nat \<Rightarrow> string \<Rightarrow> scan_outcome"

record state =
  wallclocks :: "string \<Rightarrow> wc_ptr option"
  dbTemplate :: string
  heap :: "WallClock list"
  pools :: "string list"

text \<open>The package at process start: an empty map, an empty template, nothing allocated.\<close>

definition init_state :: state where
  "init_state = \<lparr>wallclocks = Map.empty, dbTemplate = [], heap = [], pools = []\<rparr>"

subsection \<open>The library functions the package calls\<close>

text \<open>
  \<^verbatim>\<open>strings.Index(s, substr)\<close>: the index of the first instance of \<open>substr\<close> in
  \<open>s\<close>; \<open>None\<close> stands for Go's \<open>-1\<close>.
\<close>

fun strings_Index :: "string \<Rightarrow> string \<Rightarrow> nat option" where
  "strings_Index [] sub = (if sub = [] then Some 0 else None)"
| "strings_Index (c # cs) sub =
     (if prefix sub (c # cs) then Some 0 else map_option Suc (strings_Index cs sub))"

text \<open>
  The loop of \<^verbatim>\<open>strings.Replace\<close>: at most \<open>k\<close> times, copy up to the next
  instance of \<open>old\<close>, write \<open>new\<close> and go on behind the instance.
\<close>

fun replace_loop :: "nat \<Rightarrow> string \<Rightarrow> string \<Rightarrow> string \<Rightarrow> string" where
  "replace_loop 0 s old new = s"
| "replace_loop (Suc k) s old new =
     (case strings_Index s old of
        None \<Rightarrow> s
      | Some j \<Rightarrow> take j s @ new @ replace_loop k (drop (j + length old) s) old new)"

text \<open>
  \<^verbatim>\<open>strings.Replace(s, old, new, n)\<close> for a non-empty \<open>old\<close> (the package passes the
  constant \<^verbatim>\<open>"$database$"\<close>): the first \<open>n\<close> non-overlapping instances are
  replaced, all of them when \<open>n < 0\<close>.
\<close>

definition strings_Replace :: "string \<Rightarrow> string \<Rightarrow> string \<Rightarrow> int \<Rightarrow> string" where
  "strings_Replace s old new n =
     (if old = new \<or> n = 0 then s
      else replace_loop (if n < 0 then Suc (length s) else nat n) s old new)"

text \<open>
  \<^verbatim>\<open>(*Row).Scan(&dest)\<close>: the error it returns and what it leaves in \<open>dest\<close>.
\<close>

fun Row_Scan :: "scan_outcome \<Rightarrow> 64 word \<Rightarrow> go_error option \<times> 64 word" where
  "Row_Scan (QueryFailed e) dest = (Some e, dest)"
| "Row_Scan NoRows dest = (Some ''sql: no rows in result set'', dest)"
| "Row_Scan (DecodeFailed e) dest = (Some e, dest)"
| "Row_Scan (Scanned v) dest = (None, v)"

subsection \<open>The package\<close>

definition getDbTemplate :: "world \<Rightarrow> state \<Rightarrow> string \<times> state" where
  "getDbTemplate w s =
     (let s1 = (if dbTemplate s = [] then s\<lparr>dbTemplate := os_Getenv w ''WALLCLOCK_DB''\<rparr> else s)
      in (dbTemplate s1, s1))"

definition dbname :: "world \<Rightarrow> string \<Rightarrow> state \<Rightarrow> string \<times> state" where
  "dbname w nm s =
     (let (t, s1) = getDbTemplate w s;
          dn = strings_Replace t ''$database$'' nm 1
      in (dn, s1))"

definition checkErr :: "string \<Rightarrow> go_error option \<Rightarrow> panic + unit" where
  "checkErr trace err = (case err of None \<Rightarrow> Inr () | Some e \<Rightarrow> Inl (ErrPanic e))"

text \<open>
  \<^verbatim>\<open>db.Ping()\<close> and \<^verbatim>\<open>db.QueryRow\<close> lock the pool's mutex first, so on a nil
  \<^verbatim>\<open>*sql.DB\<close> they panic with a nil dereference.
\<close>

definition ping :: "world \<Rightarrow> db_ptr \<Rightarrow> panic + unit" where
  "ping w db =
     (case db of
        None \<Rightarrow> Inl NilDereference
      | Some d \<Rightarrow> checkErr ''ping'' (db_Ping w d))"

definition newTSN :: "world \<Rightarrow> db_ptr \<Rightarrow> panic + 64 word" where
  "newTSN w db =
     (case db of
        None \<Rightarrow> Inl NilDereference
      | Some d \<Rightarrow>
          (let (err, tsn) = Row_Scan (db_QueryRow w d ''select clock.new_tsn()'') 0
           in case checkErr ''newTSN'' err of
                Inl p \<Rightarrow> Inl p
              | Inr _ \<Rightarrow> Inr tsn))"

text \<open>Writing a field of the object at address \<open>a\<close>.\<close>

definition write_field :: "nat \<Rightarrow> (WallClock \<Rightarrow> WallClock) \<Rightarrow> state \<Rightarrow> state" where
  "write_field a f s = s\<lparr>heap := (heap s)[a := f (heap s ! a)]\<rparr>"

text \<open>
  \<^verbatim>\<open>add\<close>, statement by statement: allocate the zero \<^verbatim>\<open>WallClock\<close>, set its
  name and connection string, open the pool (panic on error), store the pool, publish
  the object in the map under the write lock, and ping last.
\<close>

definition add :: "world \<Rightarrow> string \<Rightarrow> state \<Rightarrow> (panic + wc_ptr) \<times> state" where
  "add w nm s =
     (let a = length (heap s);
          s1 = s\<lparr>heap := heap s @ [\<lparr>wc_db = None, wc_name = [], wc_dbname = []\<rparr>]\<rparr>;
          s2 = write_field a (\<lambda>c. c\<lparr>wc_name := nm\<rparr>) s1;
          (dn, s3) = dbname w nm s2;
          s4 = write_field a (\<lambda>c. c\<lparr>wc_dbname := dn\<rparr>) s3
      in case checkErr ''add'' (sql_Open w ''postgres'' dn) of
           Inl p \<Rightarrow> (Inl p, s4)
         | Inr _ \<Rightarrow>
             (let d = length (pools s4);
                  s5 = s4\<lparr>pools := pools s4 @ [dn]\<rparr>;
                  s6 = write_field a (\<lambda>c. c\<lparr>wc_db := Some d\<rparr>) s5;
                  s7 = s6\<lparr>wallclocks := (wallclocks s6)(nm \<mapsto> Some a)\<rparr>
              in case ping w (Some d) of
                   Inl p \<Rightarrow> (Inl p, s7)
                 | Inr _ \<Rightarrow> (Inr (Some a), s7)))"

definition get :: "world \<Rightarrow> string \<Rightarrow> state \<Rightarrow> (panic + wc_ptr) \<times> state" where
  "get w nm s =
     (case wallclocks s nm of
        Some wc \<Rightarrow> (Inr wc, s)
      | None \<Rightarrow> add w nm s)"

text \<open>
  The exported functions. The deferred \<^verbatim>\<open>recover\<close> turns every panic into the
  named result \<^verbatim>\<open>err\<close>; the other named result keeps its zero value, since the
  assignment to it never happened.
\<close>

definition GetWallClock :: "world \<Rightarrow> string \<Rightarrow> state \<Rightarrow> (wc_ptr \<times> go_error option) \<times> state" where
  "GetWallClock w nm s =
     (case get w nm s of
        (Inr wc, s') \<Rightarrow> ((wc, None), s')
      | (Inl r, s') \<Rightarrow> ((None, Some ''cannot create wall clock''), s'))"

text \<open>
  Reading \<^verbatim>\<open>wc.db\<close>: a nil receiver panics. Go has no dangling pointers; an address
  outside the heap is treated like nil.
\<close>

definition read_db :: "state \<Rightarrow> wc_ptr \<Rightarrow> panic + db_ptr" where
  "read_db s wc =
     (case wc of
        None \<Rightarrow> Inl NilDereference
      | Some a \<Rightarrow> if a < length (heap s) then Inr (wc_db (heap s ! a)) else Inl NilDereference)"

definition NewTSN :: "world \<Rightarrow> wc_ptr \<Rightarrow> state \<Rightarrow> (64 word \<times> go_error option) \<times> state" where
  "NewTSN w wc s =
     (case (case read_db s wc of Inl p \<Rightarrow> Inl p | Inr db \<Rightarrow> newTSN w db) of
        Inr tsn \<Rightarrow> ((tsn, None), s)
      | Inl r \<Rightarrow> ((0, Some ''error while reading TSN''), s))"

subsection \<open>Sequences of calls\<close>

text \<open>
  A history of the package is a list of calls, each with the world as it answers during
  that call: the exported functions, and the internal \<^verbatim>\<open>get\<close> and
  \<^verbatim>\<open>add\<close> for callers inside the package.
\<close>

datatype operation =
    OpGetWallClock string
  | OpNewTSN wc_ptr
  | OpGet string
  | OpAdd string

fun step :: "world \<times> operation \<Rightarrow> state \<Rightarrow> state" where
  "step (w, OpGetWallClock nm) s = snd (GetWallClock w nm s)"
| "step (w, OpNewTSN wc) s = snd (NewTSN w wc s)"
| "step (w, OpGet nm) s = snd (get w nm s)"
| "step (w, OpAdd nm) s = snd (add w nm s)"

definition run :: "(world \<times> operation) list \<Rightarrow> state \<Rightarrow> state" where
  "run ops s = fold step ops s"

text \<open>
  Two goroutines in \<^verbatim>\<open>get\<close> for the same name, scheduled so that both finish the
  read-locked lookup before either enters \<^verbatim>\<open>add\<close>; then the first runs
  \<^verbatim>\<open>add\<close> to its end, then the second. \<open>None\<close> when a lookup hits, which is not
  this schedule.
\<close>

definition race :: "world \<Rightarrow> string \<Rightarrow> state \<Rightarrow> ((panic + wc_ptr) \<times> (panic + wc_ptr) \<times> state) option" where
  "race w nm s =
     (case (wallclocks s nm, wallclocks s nm) of
        (None, None) \<Rightarrow>
          (let (r1, s1) = add w nm s;
               (r2, s2) = add w nm s1
           in Some (r1, r2, s2))
      | _ \<Rightarrow> None)"

subsection \<open>Concrete worlds\<close>

text \<open>
  A world whose environment holds the template \<open>t\<close> and whose server is up: every pool
  opens, every ping succeeds and the sequence answers \<open>v\<close>.
\<close>

definition world_up :: "string \<Rightarrow> 64 word \<Rightarrow> world" where
  "world_up t v =
     \<lparr>os_Getenv = (\<lambda>k. if k = ''WALLCLOCK_DB'' then t else []),
      sql_Open = (\<lambda>drv dsn. None),
      db_Ping = (\<lambda>d. None),
      db_QueryRow = (\<lambda>d q. Scanned v)\<rparr>"

text \<open>The same environment with the server down: pools open lazily, nothing else works.\<close>

definition world_down :: "string \<Rightarrow> world" where
  "world_down t =
     \<lparr>os_Getenv = (\<lambda>k. if k = ''WALLCLOCK_DB'' then t else []),
      sql_Open = (\<lambda>drv dsn. None),
      db_Ping = (\<lambda>d. Some ''dial tcp: connection refused''),
      db_QueryRow = (\<lambda>d q. QueryFailed ''dial tcp: connection refused'')\<rparr>"

text \<open>A world whose driver refuses every connection string; the server is up.\<close>

definition world_bad_dsn :: "string \<Rightarrow> world" where
  "world_bad_dsn t =
     \<lparr>os_Getenv = (\<lambda>k. if k = ''WALLCLOCK_DB'' then t else []),
      sql_Open = (\<lambda>drv dsn. Some ''pq: invalid connection string''),
      db_Ping = (\<lambda>d. None),
      db_QueryRow = (\<lambda>d q. Scanned 0)\<rparr>"

text \<open>The template used in the examples.\<close>

definition template :: string where
  "template = ''host=h dbname=$database$ application_name=$database$''"

section \<open>Properties\<close>

subsection \<open>The first instance of a substring\<close>

lemma strings_Index_Some:
  "strings_Index s old = Some j \<Longrightarrow> \<exists>post. s = take j s @ old @ post"
proof (induction s arbitrary: j)
  case Nil
  then show ?case by (auto split: if_splits)
next
  case (Cons c cs)
  show ?case
  proof (cases "prefix old (c # cs)")
    case True
    with Cons.prems have "j = 0" by simp
    with True show ?thesis by (auto simp: prefix_def)
  next
    case False
    with Cons.prems obtain k where k: "strings_Index cs old = Some k" "j = Suc k"
      by auto
    from Cons.IH[OF k(1)] obtain post where "cs = take k cs @ old @ post" by blast
    with k(2) show ?thesis by auto
  qed
qed

lemma strings_Index_least:
  "s = pre @ old @ post \<Longrightarrow> \<exists>j. strings_Index s old = Some j \<and> j \<le> length pre"
proof (induction s arbitrary: pre)
  case Nil
  then show ?case by simp
next
  case (Cons c cs)
  show ?case
  proof (cases "prefix old (c # cs)")
    case True
    then show ?thesis by simp
  next
    case False
    with Cons.prems obtain ps where ps: "pre = c # ps" "cs = ps @ old @ post"
      by (cases pre) (auto simp: prefix_def)
    from Cons.IH[OF ps(2)] obtain k where "strings_Index cs old = Some k" "k \<le> length ps"
      by blast
    with False ps(1) show ?thesis by simp
  qed
qed

lemma strings_Index_bound:
  assumes "strings_Index s old = Some j" and "s = pre @ old @ post"
  shows "j \<le> length pre"
  using strings_Index_least[OF assms(2)] assms(1) by auto

lemma strings_Replace_first:
  assumes T: "T = pre @ old @ post"
    and least: "\<And>pre' post'. T = pre' @ old @ post' \<Longrightarrow> length pre \<le> length pre'"
  shows "strings_Replace T old new 1 = pre @ new @ post"
proof (cases "old = new")
  case True
  with T show ?thesis by (simp add: strings_Replace_def)
next
  case False
  from strings_Index_least[OF T] obtain j
    where j: "strings_Index T old = Some j" "j \<le> length pre"
    by blast
  from strings_Index_Some[OF j(1)] obtain post' where p': "T = take j T @ old @ post'"
    by blast
  from least[OF p'] j(2) have "j = length pre"
    by simp
  with T have "take j T = pre" "drop (j + length old) T = post"
    by simp_all
  with j(1) False show ?thesis by (simp add: strings_Replace_def)
qed

lemma strings_Replace_absent:
  assumes "\<And>pre post. T \<noteq> pre @ old @ post"
  shows "strings_Replace T old new 1 = T"
proof -
  have "strings_Index T old = None"
  proof (cases "strings_Index T old")
    case (Some j)
    from strings_Index_Some[OF this] assms show ?thesis by blast
  qed simp
  then show ?thesis by (simp add: strings_Replace_def)
qed

lemma dbname_eq:
  "dbname w nm s =
     (strings_Replace (fst (getDbTemplate w s)) ''$database$'' nm 1, snd (getDbTemplate w s))"
  by (simp add: dbname_def Let_def split: prod.splits)

text \<open>
  C6. The connection target that \<^verbatim>\<open>dbname\<close> derives from the template \<open>T\<close> and
  the clock name \<open>N\<close>: when \<open>T = pre @ ''$database$'' @ post\<close> and no instance of the
  placeholder starts before the one after \<open>pre\<close>, the target is \<open>pre @ N @ post\<close>, with
  \<open>post\<close> untouched whatever it holds; when the placeholder does not occur in \<open>T\<close>,
  the target is \<open>T\<close>.
\<close>

theorem dbname_replaces_first_placeholder:
  assumes "fst (getDbTemplate w s) = T"
  shows "(T = pre @ ''$database$'' @ post \<and>
          (\<forall>pre' post'. T = pre' @ ''$database$'' @ post' \<longrightarrow> length pre \<le> length pre')
            \<longrightarrow> fst (dbname w N s) = pre @ N @ post)
       \<and> ((\<forall>pre' post'. T \<noteq> pre' @ ''$database$'' @ post') \<longrightarrow> fst (dbname w N s) = T)"
proof (intro conjI impI)
  assume "T = pre @ ''$database$'' @ post \<and>
    (\<forall>pre' post'. T = pre' @ ''$database$'' @ post' \<longrightarrow> length pre \<le> length pre')"
  then have "strings_Replace T ''$database$'' N 1 = pre @ N @ post"
    by (intro strings_Replace_first) blast+
  with assms show "fst (dbname w N s) = pre @ N @ post"
    by (simp add: dbname_eq)
next
  assume "\<forall>pre' post'. T \<noteq> pre' @ ''$database$'' @ post'"
  then have "strings_Replace T ''$database$'' N 1 = T"
    by (intro strings_Replace_absent) blast
  with assms show "fst (dbname w N s) = T"
    by (simp add: dbname_eq)
qed

lemma getDbTemplate_init:
  "getDbTemplate (world_up t v) init_state = (t, init_state\<lparr>dbTemplate := t\<rparr>)"
  by (simp add: getDbTemplate_def world_up_def init_state_def)

lemma template_Index:
  "strings_Index template ''$database$'' = Some 14"
  by (simp add: template_def)

theorem dbname_replaces_first_placeholder_witness:
  "fst (dbname (world_up template 7) ''rainer'' init_state)
     = ''host=h dbname=rainer application_name=$database$''
   \<and> fst (dbname (world_up ''host=h'' 7) ''rainer'' init_state) = ''host=h''"
proof
  have T: "fst (getDbTemplate (world_up template 7) init_state) = template"
    by (simp add: getDbTemplate_init)
  have split: "template = ''host=h dbname='' @ ''$database$'' @ '' application_name=$database$''"
    by (simp add: template_def)
  have least: "\<forall>pre' post'. template = pre' @ ''$database$'' @ post'
      \<longrightarrow> length ''host=h dbname='' \<le> length pre'"
  proof (intro allI impI)
    fix pre' post' :: string
    assume "template = pre' @ ''$database$'' @ post'"
    from strings_Index_bound[OF template_Index this]
    show "length ''host=h dbname='' \<le> length pre'" by simp
  qed
  from dbname_replaces_first_placeholder[OF T, of "''host=h dbname=''"
      "'' application_name=$database$''" "''rainer''"] split least
  show "fst (dbname (world_up template 7) ''rainer'' init_state)
     = ''host=h dbname=rainer application_name=$database$''"
    by simp
next
  have T: "fst (getDbTemplate (world_up ''host=h'' 7) init_state) = ''host=h''"
    by (simp add: getDbTemplate_init)
  have "strings_Index ''host=h'' ''$database$'' = None"
    by simp
  then have absent: "\<forall>pre' post'. ''host=h'' \<noteq> pre' @ ''$database$'' @ post'"
    using strings_Index_least[of "''host=h''" _ "''$database$''"] by fastforce
  from dbname_replaces_first_placeholder[OF T, of _ _ "''rainer''"] absent
  show "fst (dbname (world_up ''host=h'' 7) ''rainer'' init_state) = ''host=h''"
    by blast
qed

subsection \<open>What the calls do to the package state\<close>

lemmas add_unfold =
  add_def Let_def dbname_def getDbTemplate_def write_field_def checkErr_def ping_def

lemma add_Inr:
  "add w nm s = (Inr wc, s') \<Longrightarrow> wc = Some (length (heap s)) \<and> wallclocks s' nm = Some wc"
  by (auto simp: add_unfold split: option.splits sum.splits prod.splits if_splits)

lemma add_dom:
  "dom (wallclocks s) \<subseteq> dom (wallclocks (snd (add w nm s)))"
  by (auto simp: add_unfold split: option.splits sum.splits prod.splits if_splits)

lemma add_dbTemplate:
  "dbTemplate s \<noteq> [] \<Longrightarrow> dbTemplate (snd (add w nm s)) = dbTemplate s"
  by (auto simp: add_unfold split: option.splits sum.splits prod.splits if_splits)

lemma add_open_fails:
  "sql_Open w ''postgres'' (fst (dbname w nm s)) = Some e \<Longrightarrow>
     fst (add w nm s) = Inl (ErrPanic e) \<and> wallclocks (snd (add w nm s)) = wallclocks s
       \<and> pools (snd (add w nm s)) = pools s"
  by (auto simp: add_unfold split: option.splits sum.splits prod.splits if_splits)

lemma add_ping_fails:
  "sql_Open w ''postgres'' (fst (dbname w nm s)) = None \<Longrightarrow>
   db_Ping w (length (pools s)) = Some e \<Longrightarrow>
     fst (add w nm s) = Inl (ErrPanic e)
       \<and> wallclocks (snd (add w nm s)) = (wallclocks s)(nm \<mapsto> Some (length (heap s)))"
  by (auto simp: add_unfold split: option.splits sum.splits prod.splits if_splits)

lemma add_succeeds:
  "sql_Open w ''postgres'' (fst (dbname w nm s)) = None \<Longrightarrow>
   db_Ping w (length (pools s)) = None \<Longrightarrow>
     fst (add w nm s) = Inr (Some (length (heap s)))
       \<and> wallclocks (snd (add w nm s)) = (wallclocks s)(nm \<mapsto> Some (length (heap s)))
       \<and> pools (snd (add w nm s)) = pools s @ [fst (dbname w nm s)]"
  by (auto simp: add_unfold split: option.splits sum.splits prod.splits if_splits)

lemma get_hit:
  "wallclocks s nm = Some wc \<Longrightarrow> get w nm s = (Inr wc, s)"
  by (simp add: get_def)

lemma get_miss:
  "wallclocks s nm = None \<Longrightarrow> get w nm s = add w nm s"
  by (simp add: get_def)

lemma get_Inr:
  "get w nm s = (Inr wc, s') \<Longrightarrow> wallclocks s' nm = Some wc"
  by (auto simp: get_def dest: add_Inr split: option.splits)

lemma get_dom:
  "dom (wallclocks s) \<subseteq> dom (wallclocks (snd (get w nm s)))"
  using add_dom[of s w nm] by (simp add: get_def split: option.splits)

lemma get_dbTemplate:
  "dbTemplate s \<noteq> [] \<Longrightarrow> dbTemplate (snd (get w nm s)) = dbTemplate s"
  by (simp add: get_def add_dbTemplate split: option.splits)

lemma GetWallClock_state:
  "snd (GetWallClock w nm s) = snd (get w nm s)"
  by (simp add: GetWallClock_def split: prod.splits sum.splits)

lemma GetWallClock_ok:
  "GetWallClock w nm s = ((wc, None), s') \<Longrightarrow> wallclocks s' nm = Some wc"
  by (auto simp: GetWallClock_def dest: get_Inr split: prod.splits sum.splits)

lemma GetWallClock_hit:
  "wallclocks s nm = Some wc \<Longrightarrow> GetWallClock w nm s = ((wc, None), s)"
  by (simp add: GetWallClock_def get_def)

lemma NewTSN_state:
  "snd (NewTSN w wc s) = s"
  by (simp add: NewTSN_def split: sum.splits)

lemma step_dom:
  "dom (wallclocks s) \<subseteq> dom (wallclocks (step c s))"
proof (cases c)
  case (Pair w op)
  then show ?thesis
    by (cases op) (simp_all add: GetWallClock_state NewTSN_state get_dom add_dom)
qed

lemma step_dbTemplate:
  "dbTemplate s \<noteq> [] \<Longrightarrow> dbTemplate (step c s) = dbTemplate s"
proof (cases c)
  case (Pair w op)
  assume "dbTemplate s \<noteq> []"
  with Pair show ?thesis
    by (cases op) (simp_all add: GetWallClock_state NewTSN_state get_dbTemplate add_dbTemplate)
qed

lemma run_dbTemplate:
  "dbTemplate s \<noteq> [] \<Longrightarrow> dbTemplate (run ops s) = dbTemplate s"
  unfolding run_def
  by (induction ops arbitrary: s) (simp_all add: step_dbTemplate)

text \<open>
  C7. The map only grows: after any sequence of operations (the exported
  \<^verbatim>\<open>GetWallClock\<close> and \<^verbatim>\<open>NewTSN\<close>, and the internal \<^verbatim>\<open>get\<close> and
  \<^verbatim>\<open>add\<close>), in whatever worlds they run and whether they succeed or panic, every
  name that was in \<^verbatim>\<open>wallclocks\<close> before is still in it.
\<close>

theorem wallclocks_only_grows:
  "dom (wallclocks s) \<subseteq> dom (wallclocks (run ops s))"
  unfolding run_def
proof (induction ops arbitrary: s)
  case Nil
  show ?case by simp
next
  case (Cons c cs)
  have "dom (wallclocks s) \<subseteq> dom (wallclocks (step c s))"
    by (rule step_dom)
  also have "\<dots> \<subseteq> dom (wallclocks (fold step cs (step c s)))"
    by (rule Cons.IH)
  finally show ?case by simp
qed

text \<open>
  C5. When \<^verbatim>\<open>GetWallClock\<close> has returned a handle for a name without error, the
  next \<^verbatim>\<open>GetWallClock\<close> for that name, in any world, finds the name in the map
  and returns the same pointer without error; the package state is the one it started
  from, so no \<^verbatim>\<open>WallClock\<close> was allocated and no pool was opened.
\<close>

theorem GetWallClock_twice_same_handle:
  assumes "GetWallClock w1 nm s = ((wc, None), s1)"
  shows "wallclocks s1 nm = Some wc
       \<and> GetWallClock w2 nm s1 = ((wc, None), s1)
       \<and> pools (snd (GetWallClock w2 nm s1)) = pools s1
       \<and> heap (snd (GetWallClock w2 nm s1)) = heap s1"
proof -
  from assms have hit: "wallclocks s1 nm = Some wc"
    by (rule GetWallClock_ok)
  then have "GetWallClock w2 nm s1 = ((wc, None), s1)"
    by (rule GetWallClock_hit)
  with hit show ?thesis by simp
qed

lemma GetWallClock_init_up:
  "GetWallClock (world_up template v) ''rainer'' init_state =
     ((Some 0, None),
      \<lparr>wallclocks = [''rainer'' \<mapsto> Some 0],
       dbTemplate = template,
       heap = [\<lparr>wc_db = Some 0, wc_name = ''rainer'',
                wc_dbname = ''host=h dbname=rainer application_name=$database$''\<rparr>],
       pools = [''host=h dbname=rainer application_name=$database$'']\<rparr>)"
  by (simp add: GetWallClock_def get_def add_unfold init_state_def world_up_def
      strings_Replace_def template_def)

theorem GetWallClock_twice_same_handle_witness:
  "fst (GetWallClock (world_up template 7) ''rainer'' init_state) = (Some 0, None)
   \<and> fst (GetWallClock (world_down [])
        ''rainer'' (snd (GetWallClock (world_up template 7) ''rainer'' init_state)))
       = (Some 0, None)
   \<and> pools (snd (GetWallClock (world_down [])
        ''rainer'' (snd (GetWallClock (world_up template 7) ''rainer'' init_state))))
       = [''host=h dbname=rainer application_name=$database$'']"
  using GetWallClock_twice_same_handle[OF GetWallClock_init_up[of 7], of "world_down []"]
  by (simp add: GetWallClock_init_up)

subsection \<open>The boundary of \<^verbatim>\<open>GetWallClock\<close>\<close>

lemma GetWallClock_nil_error:
  "(snd (fst (GetWallClock w nm s)) = None) = (\<exists>wc. fst (get w nm s) = Inr wc)"
proof (cases "get w nm s")
  case (Pair r s')
  then show ?thesis
    by (cases r) (simp_all add: GetWallClock_def)
qed

lemma GetWallClock_error_iff:
  "(snd (fst (GetWallClock w nm s)) = None) =
     ((\<exists>wc. wallclocks s nm = Some wc) \<or>
      (sql_Open w ''postgres'' (fst (dbname w nm s)) = None
         \<and> db_Ping w (length (pools s)) = None))"
proof (cases "wallclocks s nm")
  case (Some wc)
  then show ?thesis by (simp add: GetWallClock_hit)
next
  case None
  then have g: "get w nm s = add w nm s" by (rule get_miss)
  show ?thesis
  proof (cases "sql_Open w ''postgres'' (fst (dbname w nm s))")
    case (Some e)
    from add_open_fails[OF this] g None Some show ?thesis
      by (simp add: GetWallClock_nil_error)
  next
    case opened: None
    show ?thesis
    proof (cases "db_Ping w (length (pools s))")
      case (Some e)
      from add_ping_fails[OF opened this] g None opened Some show ?thesis
        by (simp add: GetWallClock_nil_error)
    next
      case pinged: None
      from add_succeeds[OF opened this] g None opened pinged show ?thesis
        by (simp add: GetWallClock_nil_error)
    qed
  qed
qed

lemma GetWallClock_errors:
  "snd (fst (GetWallClock w nm s)) = None
   \<or> snd (fst (GetWallClock w nm s)) = Some ''cannot create wall clock''"
  by (simp add: GetWallClock_def split: prod.splits sum.splits)

lemma GetWallClock_constructs:
  assumes "wallclocks s nm = None"
    and "sql_Open w ''postgres'' (fst (dbname w nm s)) = None"
  shows "pools (snd (GetWallClock w nm s)) = pools s @ [fst (dbname w nm s)]"
  using assms
  by (auto simp: GetWallClock_state get_miss add_unfold
      split: option.splits sum.splits prod.splits if_splits)

text \<open>
  C8. \<^verbatim>\<open>GetWallClock\<close> does not look at the name. For every name \<open>nm\<close>, the empty
  string included: the only error it can return is \<^verbatim>\<open>cannot create wall clock\<close>;
  the error is nil exactly when the name is already in the map, or the pool for the
  connection string derived from \<open>nm\<close> opens and its ping succeeds; and when the name is
  not in the map and the pool opens, one pool has been opened for the connection string
  derived from \<open>nm\<close>.
\<close>

theorem GetWallClock_no_name_validation:
  "(snd (fst (GetWallClock w nm s)) = None
      \<or> snd (fst (GetWallClock w nm s)) = Some ''cannot create wall clock'')
   \<and> ((snd (fst (GetWallClock w nm s)) = None) =
        ((\<exists>wc. wallclocks s nm = Some wc) \<or>
         (sql_Open w ''postgres'' (fst (dbname w nm s)) = None
            \<and> db_Ping w (length (pools s)) = None)))
   \<and> (wallclocks s nm = None \<and> sql_Open w ''postgres'' (fst (dbname w nm s)) = None
        \<longrightarrow> pools (snd (GetWallClock w nm s)) = pools s @ [fst (dbname w nm s)])"
  using GetWallClock_errors[of w nm s] GetWallClock_error_iff[of w nm s]
    GetWallClock_constructs[of s nm w]
  by blast

lemma dbname_init:
  "dbname (world_up t v) nm init_state =
     (strings_Replace t ''$database$'' nm 1, init_state\<lparr>dbTemplate := t\<rparr>)"
  by (simp add: dbname_eq getDbTemplate_init)

theorem GetWallClock_no_name_validation_witness:
  "snd (fst (GetWallClock (world_up template 7) [] init_state)) = None
   \<and> pools (snd (GetWallClock (world_up template 7) [] init_state))
       = [''host=h dbname= application_name=$database$'']"
proof -
  have absent: "wallclocks init_state [] = None"
    by (simp add: init_state_def)
  have opened: "sql_Open (world_up template 7) ''postgres''
      (fst (dbname (world_up template 7) [] init_state)) = None"
    by (simp add: world_up_def)
  have pinged: "db_Ping (world_up template 7) (length (pools init_state)) = None"
    by (simp add: world_up_def)
  have target: "fst (dbname (world_up template 7) [] init_state)
      = ''host=h dbname= application_name=$database$''"
    by (simp add: dbname_init strings_Replace_def template_def)
  have start: "pools init_state = []"
    by (simp add: init_state_def)
  from GetWallClock_no_name_validation[of "world_up template 7" "[]" init_state]
    absent opened pinged
  have "snd (fst (GetWallClock (world_up template 7) [] init_state)) = None"
    and "pools (snd (GetWallClock (world_up template 7) [] init_state))
          = pools init_state @ [fst (dbname (world_up template 7) [] init_state)]"
    by blast+
  then show ?thesis
    by (simp add: target start)
qed

lemma GetWallClock_cases:
  "(fst (GetWallClock w nm s) = (None, Some ''cannot create wall clock'')
      \<and> (\<exists>p. fst (get w nm s) = Inl p))
   \<or> (\<exists>wc. fst (GetWallClock w nm s) = (wc, None) \<and> fst (get w nm s) = Inr wc)"
proof (cases "get w nm s")
  case (Pair r s')
  then show ?thesis
    by (cases r) (simp_all add: GetWallClock_def)
qed

lemma GetWallClock_generic_iff:
  "(fst (GetWallClock w nm s) = (None, Some ''cannot create wall clock'')) =
     (wallclocks s nm = None \<and>
      ((\<exists>e. sql_Open w ''postgres'' (fst (dbname w nm s)) = Some e)
         \<or> (\<exists>e. db_Ping w (length (pools s)) = Some e)))"
proof -
  have "(fst (GetWallClock w nm s) = (None, Some ''cannot create wall clock''))
      = (snd (fst (GetWallClock w nm s)) \<noteq> None)"
    using GetWallClock_cases[of w nm s] by auto
  also have "\<dots> = (wallclocks s nm = None \<and>
      ((\<exists>e. sql_Open w ''postgres'' (fst (dbname w nm s)) = Some e)
         \<or> (\<exists>e. db_Ping w (length (pools s)) = Some e)))"
    unfolding GetWallClock_error_iff by auto
  finally show ?thesis .
qed

lemma get_open_fails:
  assumes "wallclocks s nm = None"
    and "sql_Open w ''postgres'' (fst (dbname w nm s)) = Some e"
  shows "fst (get w nm s) = Inl (ErrPanic e)"
  using add_open_fails[OF assms(2)] assms(1) by (simp add: get_miss)

lemma get_ping_fails:
  assumes "wallclocks s nm = None"
    and "sql_Open w ''postgres'' (fst (dbname w nm s)) = None"
    and "db_Ping w (length (pools s)) = Some e"
  shows "fst (get w nm s) = Inl (ErrPanic e)"
  using add_ping_fails[OF assms(2,3)] assms(1) by (simp add: get_miss)

text \<open>
  C3. No panic leaves \<^verbatim>\<open>GetWallClock\<close>, and a failed construction reaches the
  caller as the one generic error. For every world, name and state:
  the result is either a handle with a nil error or the nil handle with the error
  \<^verbatim>\<open>cannot create wall clock\<close>; it is the latter exactly when the name is not in
  the map and the pool does not open or its ping fails; and in both failures, whatever
  the error \<open>e\<close> of \<^verbatim>\<open>sql.Open\<close> or of \<^verbatim>\<open>Ping\<close> is, \<^verbatim>\<open>get\<close> panics
  with \<open>e\<close> and \<^verbatim>\<open>GetWallClock\<close> returns the same pair, in which \<open>e\<close> does not
  occur.
\<close>

theorem GetWallClock_failure_is_generic_error:
  "((\<exists>wc. fst (GetWallClock w nm s) = (wc, None))
      \<or> fst (GetWallClock w nm s) = (None, Some ''cannot create wall clock''))
   \<and> ((fst (GetWallClock w nm s) = (None, Some ''cannot create wall clock'')) =
        (wallclocks s nm = None \<and>
         ((\<exists>e. sql_Open w ''postgres'' (fst (dbname w nm s)) = Some e)
            \<or> (\<exists>e. db_Ping w (length (pools s)) = Some e))))
   \<and> (wallclocks s nm = None \<and> sql_Open w ''postgres'' (fst (dbname w nm s)) = Some e
        \<longrightarrow> fst (get w nm s) = Inl (ErrPanic e)
          \<and> fst (GetWallClock w nm s) = (None, Some ''cannot create wall clock''))
   \<and> (wallclocks s nm = None \<and> sql_Open w ''postgres'' (fst (dbname w nm s)) = None
          \<and> db_Ping w (length (pools s)) = Some e
        \<longrightarrow> fst (get w nm s) = Inl (ErrPanic e)
          \<and> fst (GetWallClock w nm s) = (None, Some ''cannot create wall clock''))"
proof (intro conjI impI)
  show "(\<exists>wc. fst (GetWallClock w nm s) = (wc, None))
      \<or> fst (GetWallClock w nm s) = (None, Some ''cannot create wall clock'')"
    using GetWallClock_cases[of w nm s] by blast
next
  show "(fst (GetWallClock w nm s) = (None, Some ''cannot create wall clock'')) =
        (wallclocks s nm = None \<and>
         ((\<exists>e. sql_Open w ''postgres'' (fst (dbname w nm s)) = Some e)
            \<or> (\<exists>e. db_Ping w (length (pools s)) = Some e)))"
    by (rule GetWallClock_generic_iff)
next
  assume a: "wallclocks s nm = None \<and> sql_Open w ''postgres'' (fst (dbname w nm s)) = Some e"
  then show "fst (get w nm s) = Inl (ErrPanic e)"
    by (simp add: get_open_fails)
  from a show "fst (GetWallClock w nm s) = (None, Some ''cannot create wall clock'')"
    unfolding GetWallClock_generic_iff by blast
next
  assume a: "wallclocks s nm = None \<and> sql_Open w ''postgres'' (fst (dbname w nm s)) = None
          \<and> db_Ping w (length (pools s)) = Some e"
  then show "fst (get w nm s) = Inl (ErrPanic e)"
    by (simp add: get_ping_fails)
  from a show "fst (GetWallClock w nm s) = (None, Some ''cannot create wall clock'')"
    unfolding GetWallClock_generic_iff by blast
qed

theorem GetWallClock_failure_is_generic_error_witness:
  "fst (get (world_down template) ''rainer'' init_state)
     = Inl (ErrPanic ''dial tcp: connection refused'')
   \<and> fst (GetWallClock (world_down template) ''rainer'' init_state)
     = (None, Some ''cannot create wall clock'')
   \<and> fst (get (world_bad_dsn ''host'') ''rainer'' init_state)
     = Inl (ErrPanic ''pq: invalid connection string'')
   \<and> fst (GetWallClock (world_bad_dsn ''host'') ''rainer'' init_state)
     = (None, Some ''cannot create wall clock'')"
proof -
  have absent: "wallclocks init_state ''rainer'' = None"
    by (simp add: init_state_def)
  have start: "length (pools init_state) = 0"
    by (simp add: init_state_def)
  have opened: "sql_Open (world_down template) ''postgres''
      (fst (dbname (world_down template) ''rainer'' init_state)) = None"
    by (simp add: world_down_def)
  have ping_err: "db_Ping (world_down template) (length (pools init_state))
      = Some ''dial tcp: connection refused''"
    by (simp add: world_down_def)
  have open_err: "sql_Open (world_bad_dsn ''host'') ''postgres''
      (fst (dbname (world_bad_dsn ''host'') ''rainer'' init_state))
      = Some ''pq: invalid connection string''"
    by (simp add: world_bad_dsn_def)
  from GetWallClock_failure_is_generic_error[of "world_down template" "''rainer''" init_state
      "''dial tcp: connection refused''"] absent opened ping_err
  have down: "fst (get (world_down template) ''rainer'' init_state)
       = Inl (ErrPanic ''dial tcp: connection refused'')"
    "fst (GetWallClock (world_down template) ''rainer'' init_state)
       = (None, Some ''cannot create wall clock'')"
    by blast+
  from GetWallClock_failure_is_generic_error[of "world_bad_dsn ''host''" "''rainer''" init_state
      "''pq: invalid connection string''"] absent open_err
  have bad: "fst (get (world_bad_dsn ''host'') ''rainer'' init_state)
       = Inl (ErrPanic ''pq: invalid connection string'')"
    "fst (GetWallClock (world_bad_dsn ''host'') ''rainer'' init_state)
       = (None, Some ''cannot create wall clock'')"
    by blast+
  from down bad show ?thesis by simp
qed

subsection \<open>The memoized template\<close>

text \<open>
  C9. \<^verbatim>\<open>getDbTemplate\<close> memoizes. While \<^verbatim>\<open>dbTemplate\<close> is the empty
  string, a call reads \<^verbatim>\<open>WALLCLOCK_DB\<close> and stores what it read; when it is not
  empty, a call returns it and leaves the state alone, whatever the world, so the
  environment is not consulted. Once a call has returned a non-empty value, then after
  any sequence of operations, each in a world of its own, \<^verbatim>\<open>getDbTemplate\<close> in
  any world \<open>w'\<close> still returns that value, and \<^verbatim>\<open>dbname\<close> derives its
  connection string from it.
\<close>

theorem getDbTemplate_memoized:
  "(dbTemplate s \<noteq> [] \<longrightarrow> getDbTemplate w s = (dbTemplate s, s))
   \<and> (dbTemplate s = [] \<longrightarrow>
        getDbTemplate w s
          = (os_Getenv w ''WALLCLOCK_DB'', s\<lparr>dbTemplate := os_Getenv w ''WALLCLOCK_DB''\<rparr>))
   \<and> (fst (getDbTemplate w s) \<noteq> [] \<longrightarrow>
        getDbTemplate w' (run ops (snd (getDbTemplate w s)))
          = (fst (getDbTemplate w s), run ops (snd (getDbTemplate w s)))
        \<and> fst (dbname w' nm (run ops (snd (getDbTemplate w s))))
          = strings_Replace (fst (getDbTemplate w s)) ''$database$'' nm 1)"
proof (intro conjI impI)
  show "getDbTemplate w s = (dbTemplate s, s)" if "dbTemplate s \<noteq> []"
    using that by (simp add: getDbTemplate_def)
next
  show "getDbTemplate w s
      = (os_Getenv w ''WALLCLOCK_DB'', s\<lparr>dbTemplate := os_Getenv w ''WALLCLOCK_DB''\<rparr>)"
    if "dbTemplate s = []"
    using that by (simp add: getDbTemplate_def)
next
  assume read: "fst (getDbTemplate w s) \<noteq> []"
  define v where "v = fst (getDbTemplate w s)"
  define s1 where "s1 = snd (getDbTemplate w s)"
  have "dbTemplate s1 = v"
    by (simp add: v_def s1_def getDbTemplate_def)
  with read have cached: "dbTemplate (run ops s1) = v" "v \<noteq> []"
    by (simp_all add: run_dbTemplate v_def)
  then have again: "getDbTemplate w' (run ops s1) = (v, run ops s1)"
    by (simp add: getDbTemplate_def)
  then show "getDbTemplate w' (run ops (snd (getDbTemplate w s)))
      = (fst (getDbTemplate w s), run ops (snd (getDbTemplate w s)))"
    by (simp add: v_def s1_def)
  from again show "fst (dbname w' nm (run ops (snd (getDbTemplate w s))))
      = strings_Replace (fst (getDbTemplate w s)) ''$database$'' nm 1"
    by (simp add: dbname_eq v_def s1_def)
qed

theorem getDbTemplate_memoized_witness:
  "fst (getDbTemplate (world_up template 7) init_state) = template
   \<and> fst (getDbTemplate (world_up ''host=other'' 7)
        (run [(world_down ''host=other'', OpGetWallClock ''rainer'')]
           (snd (getDbTemplate (world_up template 7) init_state))))
       = template"
proof -
  have first: "fst (getDbTemplate (world_up template 7) init_state) = template"
    by (simp add: getDbTemplate_init)
  have "template \<noteq> []"
    by (simp add: template_def)
  with first have "fst (getDbTemplate (world_up template 7) init_state) \<noteq> []"
    by simp
  with getDbTemplate_memoized[of init_state "world_up template 7" "world_up ''host=other'' 7"
      "[(world_down ''host=other'', OpGetWallClock ''rainer'')]"]
  have "getDbTemplate (world_up ''host=other'' 7)
        (run [(world_down ''host=other'', OpGetWallClock ''rainer'')]
           (snd (getDbTemplate (world_up template 7) init_state)))
       = (fst (getDbTemplate (world_up template 7) init_state),
          run [(world_down ''host=other'', OpGetWallClock ''rainer'')]
           (snd (getDbTemplate (world_up template 7) init_state)))"
    by blast
  with first show ?thesis by simp
qed

subsection \<open>\<^verbatim>\<open>NewTSN\<close>\<close>

lemma NewTSN_live:
  assumes "a < length (heap s)" and "wc_db (heap s ! a) = Some d"
  shows "NewTSN w (Some a) s =
     (case db_QueryRow w d ''select clock.new_tsn()'' of
        Scanned v \<Rightarrow> ((v, None), s)
      | _ \<Rightarrow> ((0, Some ''error while reading TSN''), s))"
  using assms
  by (simp add: NewTSN_def read_db_def newTSN_def checkErr_def split: scan_outcome.splits)

text \<open>
  C4. For a handle that points to a \<^verbatim>\<open>WallClock\<close> with a pool, and \<open>R\<close> the
  outcome of the one round trip: \<^verbatim>\<open>NewTSN\<close> returns an error exactly when \<open>R\<close> is
  a failed query, no row or a failed decode; the error is then
  \<^verbatim>\<open>error while reading TSN\<close> with the value 0, returned as a pair; and when \<open>R\<close>
  is a scanned value \<open>v\<close>, the result is \<open>v\<close> with a nil error. The package state is
  unchanged.
\<close>

theorem NewTSN_error_iff_round_trip_fails:
  assumes "a < length (heap s)" and "wc_db (heap s ! a) = Some d"
    and "R = db_QueryRow w d ''select clock.new_tsn()''"
  shows "((snd (fst (NewTSN w (Some a) s)) \<noteq> None) =
            ((\<exists>e. R = QueryFailed e) \<or> R = NoRows \<or> (\<exists>e. R = DecodeFailed e)))
       \<and> (snd (fst (NewTSN w (Some a) s)) \<noteq> None \<longrightarrow>
            NewTSN w (Some a) s = ((0, Some ''error while reading TSN''), s))
       \<and> (\<forall>v. R = Scanned v \<longrightarrow> NewTSN w (Some a) s = ((v, None), s))"
proof -
  note live = NewTSN_live[OF assms(1,2), of w, folded assms(3)]
  show ?thesis
    by (cases R) (simp_all add: live)
qed

lemma ready_state_handle:
  "0 < length (heap (snd (GetWallClock (world_up template 7) ''rainer'' init_state)))
   \<and> wc_db (heap (snd (GetWallClock (world_up template 7) ''rainer'' init_state)) ! 0) = Some 0"
  by (simp add: GetWallClock_init_up)

theorem NewTSN_error_iff_round_trip_fails_witness:
  "fst (NewTSN (world_up template 7) (Some 0)
      (snd (GetWallClock (world_up template 7) ''rainer'' init_state))) = (7, None)
   \<and> fst (NewTSN (world_down template) (Some 0)
      (snd (GetWallClock (world_up template 7) ''rainer'' init_state)))
       = (0, Some ''error while reading TSN'')"
proof
  let ?S = "snd (GetWallClock (world_up template 7) ''rainer'' init_state)"
  have handle: "0 < length (heap ?S)" "wc_db (heap ?S ! 0) = Some 0"
    using ready_state_handle by simp_all
  have "Scanned 7 = db_QueryRow (world_up template 7) 0 ''select clock.new_tsn()''"
    by (simp add: world_up_def)
  from NewTSN_error_iff_round_trip_fails[OF handle this]
  show "fst (NewTSN (world_up template 7) (Some 0) ?S) = (7, None)"
    by simp
  have "QueryFailed ''dial tcp: connection refused''
      = db_QueryRow (world_down template) 0 ''select clock.new_tsn()''"
    by (simp add: world_down_def)
  from NewTSN_error_iff_round_trip_fails[OF handle this]
  show "fst (NewTSN (world_down template) (Some 0) ?S) = (0, Some ''error while reading TSN'')"
    by auto
qed

text \<open>
  C10. \<^verbatim>\<open>NewTSN\<close> on an invalid handle: on the nil handle, and on a handle to a
  \<^verbatim>\<open>WallClock\<close> whose pool pointer is nil, the nil dereference is recovered and
  the call returns 0 with the error \<^verbatim>\<open>error while reading TSN\<close>, in every world
  and every state.
\<close>

theorem NewTSN_invalid_handle:
  "NewTSN w None s = ((0, Some ''error while reading TSN''), s)
   \<and> (a < length (heap s) \<and> wc_db (heap s ! a) = None \<longrightarrow>
        NewTSN w (Some a) s = ((0, Some ''error while reading TSN''), s))"
  by (simp add: NewTSN_def read_db_def newTSN_def)

theorem NewTSN_invalid_handle_witness:
  "NewTSN (world_up template 7) (Some 0)
      (init_state\<lparr>heap := [\<lparr>wc_db = None, wc_name = [], wc_dbname = []\<rparr>]\<rparr>)
     = ((0, Some ''error while reading TSN''),
        init_state\<lparr>heap := [\<lparr>wc_db = None, wc_name = [], wc_dbname = []\<rparr>]\<rparr>)"
  using NewTSN_invalid_handle[of "world_up template 7"
      "init_state\<lparr>heap := [\<lparr>wc_db = None, wc_name = [], wc_dbname = []\<rparr>]\<rparr>" 0]
  by simp

subsection \<open>Publication before the ping\<close>

text \<open>
  \<^verbatim>\<open>add\<close> stores the handle in the map before it pings. When the pool opens and
  the ping fails, the caller gets the error, the map keeps the entry, and the next call
  for the name returns the handle from the map, in any world.
\<close>

lemma GetWallClock_ping_fails:
  assumes "wallclocks s nm = None"
    and "sql_Open w ''postgres'' (fst (dbname w nm s)) = None"
    and "db_Ping w (length (pools s)) = Some e"
  shows "fst (GetWallClock w nm s) = (None, Some ''cannot create wall clock'')
       \<and> wallclocks (snd (GetWallClock w nm s)) nm = Some (Some (length (heap s)))
       \<and> fst (GetWallClock w' nm (snd (GetWallClock w nm s))) = (Some (length (heap s)), None)"
proof -
  from add_ping_fails[OF assms(2,3)] assms(1)
  have r: "fst (get w nm s) = Inl (ErrPanic e)"
    and m: "wallclocks (snd (get w nm s)) nm = Some (Some (length (heap s)))"
    by (simp_all add: get_miss)
  from r have "fst (GetWallClock w nm s) = (None, Some ''cannot create wall clock'')"
    by (cases "get w nm s") (simp add: GetWallClock_def)
  moreover from m
  have m': "wallclocks (snd (GetWallClock w nm s)) nm = Some (Some (length (heap s)))"
    by (simp add: GetWallClock_state)
  moreover from GetWallClock_hit[OF m']
  have "fst (GetWallClock w' nm (snd (GetWallClock w nm s))) = (Some (length (heap s)), None)"
    by simp
  ultimately show ?thesis by simp
qed

text \<open>
  C1. The registry after a failed ping, at process start with the server down: the pool
  opens (lazily) and the ping fails. \<^verbatim>\<open>GetWallClock\<close> returns the nil handle and
  the error \<^verbatim>\<open>cannot create wall clock\<close>, but the name is in the map afterwards,
  with a handle that was never probed successfully; the next \<^verbatim>\<open>GetWallClock\<close>,
  with the server still down, returns that handle with a nil error and constructs
  nothing. So a name is visible before its probe has succeeded, and a failed probe does
  not leave the registry unchanged.
\<close>

theorem GetWallClock_ping_failure_leaves_entry:
  "fst (GetWallClock (world_down template) ''rainer'' init_state)
     = (None, Some ''cannot create wall clock'')
   \<and> wallclocks (snd (GetWallClock (world_down template) ''rainer'' init_state)) ''rainer''
     = Some (Some 0)
   \<and> GetWallClock (world_down template) ''rainer''
       (snd (GetWallClock (world_down template) ''rainer'' init_state))
     = ((Some 0, None), snd (GetWallClock (world_down template) ''rainer'' init_state))"
  by (simp add: GetWallClock_def get_def add_unfold init_state_def world_down_def
      strings_Replace_def template_def)

subsection \<open>Two first-time callers\<close>

text \<open>
  \<^verbatim>\<open>add\<close> publishes without looking at the map again. When two callers of
  \<^verbatim>\<open>get\<close> have both missed the name and the server is up, each gets a handle of
  its own, two pools are opened and the map keeps the second handle.
\<close>

lemma race_distinct_handles:
  assumes "wallclocks s nm = None"
    and "\<And>dsn. sql_Open w ''postgres'' dsn = None"
    and "\<And>d. db_Ping w d = None"
  shows "\<exists>s2. race w nm s
           = Some (Inr (Some (length (heap s))), Inr (Some (Suc (length (heap s)))), s2)
       \<and> length (pools s2) = length (pools s) + 2
       \<and> wallclocks s2 nm = Some (Some (Suc (length (heap s))))"
  using assms
  by (simp add: race_def add_unfold split: prod.splits)

text \<open>
  C2. Two first-time callers for the name \<open>x\<close> at process start, both past the lookup
  before either publishes: two \<^verbatim>\<open>WallClock\<close> objects are allocated and two pools
  are opened, the second publication overwrites the first, the callers hold different
  handles with different pools, and both pools stay open (the package never calls
  \<^verbatim>\<open>Close\<close>). So more than one connection is constructed and published, and the
  callers do not converge on one handle.
\<close>

theorem race_opens_two_pools:
  "race (world_up ''dbname=$database$'' 7) ''x'' init_state =
     Some (Inr (Some 0), Inr (Some 1),
       \<lparr>wallclocks = [''x'' \<mapsto> Some 1],
        dbTemplate = ''dbname=$database$'',
        heap = [\<lparr>wc_db = Some 0, wc_name = ''x'', wc_dbname = ''dbname=x''\<rparr>,
                \<lparr>wc_db = Some 1, wc_name = ''x'', wc_dbname = ''dbname=x''\<rparr>],
        pools = [''dbname=x'', ''dbname=x'']\<rparr>)"
  by (simp add: race_def add_unfold init_state_def world_up_def strings_Replace_def)

end
